theory Spec2Isabelle
  imports Main "HOL-Library.Sublist"
begin

section \<open>Errors\<close>

text \<open>
  The command throws two kinds of exception: \<open>GeneralError\<close> (flag validation in
  \<open>action\<close>) and the plain JavaScript \<open>Error\<close> (\<open>report\<close>). \<open>ConflictError\<close> is the
  engine's aggregated conflict error of the spec's taxonomy (section 7). Each carries
  its message text.
\<close>

datatype error = GeneralError string | Error string | ConflictError string

section \<open>Component identifiers and the data of an import result\<close>

text \<open>
  Modelled from the spec: the \<open>BitId\<close> class is outside src. Section 3 gives a
  ComponentIdentifier the fields scope, name and optional version, and section 8 writes
  one as \<open>remote/bar/foo@0.0.1\<close>; \<open>toStringWithoutVersion\<close> leaves the version out.
\<close>

record component_id =
  scope :: string
  name :: string
  version :: "string option"

text \<open>
  Modelled from the spec: \<open>BitId.toStringWithoutVersion\<close> is outside src; the
  textual form of section 8 without its version part.
\<close>

definition toStringWithoutVersion :: "component_id \<Rightarrow> string" where
  "toStringWithoutVersion i = scope i @ ''/'' @ name i"

text \<open>
  Modelled from the spec: \<open>BitId.toString\<close> is outside src; the textual form of
  section 8, the version after \<open>@\<close> when there is one.
\<close>

definition toString :: "component_id \<Rightarrow> string" where
  "toString i =
     toStringWithoutVersion i @ (case version i of None \<Rightarrow> [] | Some v \<Rightarrow> ''@'' @ v)"

text \<open>Of a \<open>Component\<close> the command reads only its \<open>id\<close>.\<close>

record component =
  comp_id :: component_id

text \<open>\<open>ComponentWithDependencies\<close>: a component with its two dependency arrays.\<close>

record component_with_dependencies =
  component :: component
  dependencies :: "component list"
  devDependencies :: "component list"

text \<open>\<open>ImportDetails\<close>; \<open>report\<close> matches a record by its \<open>id\<close>, a string.\<close>

record import_details =
  details_id :: string
  versions :: "string list"
  status :: string

text \<open>
  The \<open>warnings\<close> object: three arrays of objects. An object is kept as the list of
  its key/value pairs in key order, which is what \<open>R.keys\<close> and \<open>R.values\<close> read.
\<close>

type_synonym js_object = "(string \<times> string) list"

record warnings_obj =
  notInPackageJson :: "js_object list"
  notInNodeModules :: "js_object list"
  notInBoth :: "js_object list"

text \<open>
  What \<open>importAction\<close> resolves to and \<open>report\<close> destructures. An optional property
  (\<open>dependencies?:\<close>) is an \<open>option\<close>, \<open>None\<close> for \<open>undefined\<close>. The fields
  \<open>dependencies\<close> and \<open>envDependencies\<close> carry the prefix \<open>r_\<close> here, the name
  \<open>dependencies\<close> being taken by \<open>ComponentWithDependencies\<close>. The elements of
  \<open>envDependencies\<close> are read through \<open>.component\<close> by \<open>report\<close>, so they are
  modelled with that field.
\<close>

record import_results =
  r_dependencies :: "component_with_dependencies list option"
  r_envDependencies :: "component_with_dependencies list option"
  importDetails :: "import_details list"
  warnings :: "warnings_obj option"
  displayDependencies :: "bool option"

section \<open>The command's action\<close>

text \<open>
  The options object of \<open>action\<close>. Every property is optional; the destructuring
  pattern gives each boolean the default \<open>false\<close>, and \<open>path\<close> none.
\<close>

record flags =
  flag_tester :: "bool option"
  flag_compiler :: "bool option"
  flag_extension :: "bool option"
  flag_path :: "string option"
  flag_objects :: "bool option"
  flag_write :: "bool option"
  flag_displayDependencies :: "bool option"
  flag_environment :: "bool option"
  flag_override :: "bool option"
  flag_verbose :: "bool option"
  flag_ignoreDist :: "bool option"
  flag_conf :: "bool option"
  flag_skipNpmInstall :: "bool option"
  flag_ignorePackageJson :: "bool option"

text \<open>The default \<open>= false\<close> of a destructured property.\<close>

definition orFalse :: "bool option \<Rightarrow> bool" where
  "orFalse b = (case b of None \<Rightarrow> False | Some v \<Rightarrow> v)"

record environmentOptions =
  tester :: bool
  compiler :: bool
  extension :: bool

record importOptions =
  ids :: "string list"
  verbose :: bool
  writeToPath :: "string option"
  objectsOnly :: bool
  writeToFs :: bool
  withEnvironments :: bool
  override :: bool
  writeDists :: bool
  writeBitJson :: bool
  installNpmPackages :: bool
  writePackageJson :: bool

text \<open>
  \<open>importAction\<close> (the engine, outside src) is a parameter. It works on the world
  \<open>'w\<close> (network, object store, workspace) and its promise either rejects with an
  error or resolves to the import results.
\<close>

type_synonym 'w engine =
  "environmentOptions \<Rightarrow> importOptions \<Rightarrow> string list \<Rightarrow> 'w \<Rightarrow> (error + import_results) \<times> 'w"

text \<open>The two objects \<open>action\<close> builds for the engine.\<close>

definition environmentOptions_of :: "flags \<Rightarrow> environmentOptions" where
  "environmentOptions_of fl =
     \<lparr> tester = orFalse (flag_tester fl),
       compiler = orFalse (flag_compiler fl),
       extension = orFalse (flag_extension fl) \<rparr>"

definition importOptions_of :: "string list \<Rightarrow> flags \<Rightarrow> importOptions" where
  "importOptions_of is fl =
     \<lparr> ids = is,
       verbose = orFalse (flag_verbose fl),
       writeToPath = flag_path fl,
       objectsOnly = orFalse (flag_objects fl),
       writeToFs = orFalse (flag_write fl),
       withEnvironments = orFalse (flag_environment fl),
       override = orFalse (flag_override fl),
       writeDists = (\<not> orFalse (flag_ignoreDist fl)),
       writeBitJson = orFalse (flag_conf fl),
       installNpmPackages = (\<not> orFalse (flag_skipNpmInstall fl)),
       writePackageJson = (\<not> orFalse (flag_ignorePackageJson fl)) \<rparr>"

text \<open>
  \<open>action\<close>: the three checks in the source's order, each throwing before the engine
  is reached (the world is returned as it was), then the call of the engine, whose
  result gets the property \<open>displayDependencies\<close> (\<open>R.assoc\<close>) when it resolves.
\<close>

definition action ::
  "'w engine \<Rightarrow> string list \<Rightarrow> flags \<Rightarrow> string list \<Rightarrow> 'w \<Rightarrow> (error + import_results) \<times> 'w"
where
  "action importAction is fl packageManagerArgs w =
     (if orFalse (flag_tester fl) \<and> orFalse (flag_compiler fl) then
        (Inl (GeneralError ''you cant use tester and compiler flags combined''), w)
      else if orFalse (flag_objects fl) \<and> orFalse (flag_write fl) then
        (Inl (GeneralError ''you cant use --objects and --write flags combined''), w)
      else if is \<noteq> [] \<and> orFalse (flag_write fl) then
        (Inl (GeneralError ''you cant use --write flag when importing specific ids''), w)
      else
        (case importAction (environmentOptions_of fl) (importOptions_of is fl)
                packageManagerArgs w of
           (Inl e, w') \<Rightarrow> (Inl e, w')
         | (Inr importResults, w') \<Rightarrow>
             (Inr (importResults
                \<lparr> displayDependencies := Some (orFalse (flag_displayDependencies fl)) \<rparr>), w')))"

subsection \<open>Concrete inputs\<close>

text \<open>No option given on the command line.\<close>

definition no_flags :: flags where
  "no_flags =
     \<lparr> flag_tester = None, flag_compiler = None, flag_extension = None, flag_path = None,
       flag_objects = None, flag_write = None, flag_displayDependencies = None,
       flag_environment = None, flag_override = None, flag_verbose = None,
       flag_ignoreDist = None, flag_conf = None, flag_skipNpmInstall = None,
       flag_ignorePackageJson = None \<rparr>"

definition empty_results :: import_results where
  "empty_results =
     \<lparr> r_dependencies = None, r_envDependencies = None, importDetails = [],
       warnings = None, displayDependencies = None \<rparr>"

text \<open>
  An engine that only records its calls: the world is the list of the calls made so
  far, and every call resolves to the empty result.
\<close>

definition recording_engine ::
  "(environmentOptions \<times> importOptions \<times> string list) list engine"
where
  "recording_engine eo io pm calls = (Inr empty_results, calls @ [(eo, io, pm)])"

section \<open>The report\<close>

text \<open>
  What \<open>report\<close> calls outside src, taken as parameters: the styles of the chalk
  library (\<open>chalk.green\<close>, \<open>chalk.yellow\<close>, \<open>chalk.red\<close>, \<open>chalk.red.underline\<close>,
  \<open>chalk.yellow.underline\<close>), the two formatters of chalk-box and the helper
  \<open>immutableUnshift\<close> of utils.
\<close>

record externals =
  green :: "string \<Rightarrow> string"
  yellow :: "string \<Rightarrow> string"
  red :: "string \<Rightarrow> string"
  red_underline :: "string \<Rightarrow> string"
  yellow_underline :: "string \<Rightarrow> string"
  formatPlainComponentItem :: "component \<Rightarrow> string"
  formatPlainComponentItemWithVersions :: "component \<Rightarrow> import_details \<Rightarrow> string"
  immutableUnshift :: "string list \<Rightarrow> string \<Rightarrow> string list"

text \<open>\<open>Array.prototype.join\<close> on an array of strings.\<close>

fun join :: "string \<Rightarrow> string list \<Rightarrow> string" where
  "join sep [] = []"
| "join sep [x] = x"
| "join sep (x # y # ys) = x @ sep @ join sep (y # ys)"

text \<open>\<open>R.uniq\<close>: the first occurrence of each element is kept, in order.\<close>

fun uniq_from :: "'a list \<Rightarrow> 'a list \<Rightarrow> 'a list" where
  "uniq_from seen [] = []"
| "uniq_from seen (x # xs) =
     (if x \<in> set seen then uniq_from seen xs else x # uniq_from (x # seen) xs)"

definition uniq :: "'a list \<Rightarrow> 'a list" where
  "uniq xs = uniq_from [] xs"

text \<open>A number inside a template literal: its decimal digits.\<close>

definition digit :: "nat \<Rightarrow> char" where
  "digit d = char_of (48 + d)"

function string_of_nat :: "nat \<Rightarrow> string" where
  "string_of_nat n =
     (if n < 10 then [digit n] else string_of_nat (n div 10) @ [digit (n mod 10)])"
  by pat_completeness auto
termination
  by (relation "measure (\<lambda>n. n)") auto

declare string_of_nat.simps [simp del]

text \<open>
  What it means for a string to be the decimal numeral of a number, said without
  \<open>string_of_nat\<close>: the characters are the digits \<open>0\<close> to \<open>9\<close> (codes 48 to 57),
  read from the left in base ten they give the number, and only the numeral of zero
  starts with \<open>0\<close>.
\<close>

definition decimal_value :: "string \<Rightarrow> nat" where
  "decimal_value s = foldl (\<lambda>a c. 10 * a + (of_char c - 48)) 0 s"

definition is_decimal_of :: "string \<Rightarrow> nat \<Rightarrow> bool" where
  "is_decimal_of s n =
     (s \<noteq> [] \<and> (\<forall>c \<in> set s. 48 \<le> (of_char c :: nat) \<and> (of_char c :: nat) \<le> 57) \<and>
      decimal_value s = n \<and> (hd s = CHR ''0'' \<longrightarrow> s = ''0''))"

text \<open>The \<open>title\<close> of the component listing, from the number of components.\<close>

definition title :: "nat \<Rightarrow> string" where
  "title n =
     (if n = 1 then ''successfully imported one component''
      else ''successfully imported '' @ string_of_nat n @ '' components'')"

text \<open>\<open>importDetails.find(c => c.id === component.id.toStringWithoutVersion())\<close>\<close>

definition find_details :: "import_details list \<Rightarrow> component \<Rightarrow> import_details option" where
  "find_details ds c = find (\<lambda>d. details_id d = toStringWithoutVersion (comp_id c)) ds"

text \<open>
  \<open>components.map(...)\<close> with the callback that throws: the components are visited in
  order, and the first one without details ends the report with an \<open>Error\<close>.
\<close>

fun componentDependencies ::
  "externals \<Rightarrow> import_details list \<Rightarrow> component list \<Rightarrow> error + string list"
where
  "componentDependencies X ds [] = Inr []"
| "componentDependencies X ds (c # cs) =
     (case find_details ds c of
        None \<Rightarrow> Inl (Error (''missing details of component '' @ toString (comp_id c)))
      | Some details \<Rightarrow>
          (case componentDependencies X ds cs of
             Inl e \<Rightarrow> Inl e
           | Inr items \<Rightarrow> Inr (formatPlainComponentItemWithVersions X c details # items)))"

text \<open>
  \<open>peerDependencies\<close>: \<open>R.flatten\<close> takes one argument, so of the two arrays passed to
  it only the first, the \<open>dependencies\<close> of every entry, is flattened; the
  \<open>devDependencies\<close> are dropped.
\<close>

definition peerDependencies :: "component_with_dependencies list \<Rightarrow> component list" where
  "peerDependencies deps = concat (map dependencies deps)"

definition componentDependenciesOutput :: "externals \<Rightarrow> nat \<Rightarrow> string list \<Rightarrow> string" where
  "componentDependenciesOutput X n items = join ''\<newline>'' (green X (title n) # items)"

definition peerDependenciesOutput ::
  "externals \<Rightarrow> component list \<Rightarrow> nat \<Rightarrow> bool option \<Rightarrow> string"
where
  "peerDependenciesOutput X peers n dd =
     (if peers \<noteq> [] \<and> dd = Some True then
        join ''\<newline>''
          (immutableUnshift X (uniq (map (formatPlainComponentItem X) peers))
             (green X (''\<newline>\<newline>successfully imported '' @ string_of_nat n
                         @ '' component dependencies'')))
      else [])"

text \<open>
  The first block of \<open>report\<close>: \<open>dependenciesOutput\<close> stays \<open>undefined\<close> (\<open>None\<close>)
  when \<open>dependencies\<close> is absent or empty.
\<close>

definition dependenciesOutput :: "externals \<Rightarrow> import_results \<Rightarrow> error + string option" where
  "dependenciesOutput X r =
     (case r_dependencies r of
        None \<Rightarrow> Inr None
      | Some deps \<Rightarrow>
          if deps = [] then Inr None
          else
            (case componentDependencies X (importDetails r) (map component deps) of
               Inl e \<Rightarrow> Inl e
             | Inr items \<Rightarrow>
                 Inr (Some (componentDependenciesOutput X (length deps) items
                            @ peerDependenciesOutput X (peerDependencies deps) (length deps)
                                (displayDependencies r)))))"

definition envDependenciesOutput :: "externals \<Rightarrow> import_results \<Rightarrow> string option" where
  "envDependenciesOutput X r =
     (case r_envDependencies r of
        None \<Rightarrow> None
      | Some envs \<Rightarrow>
          if envs = [] then None
          else Some (join ''\<newline>''
                 (immutableUnshift X (map (\<lambda>e. formatPlainComponentItem X (component e)) envs)
                    (green X ''the following component environments were installed''))))"

text \<open>JavaScript truthiness of a variable that is \<open>undefined\<close> or a string.\<close>

definition truthy :: "string option \<Rightarrow> bool" where
  "truthy s = (case s of None \<Rightarrow> False | Some t \<Rightarrow> t \<noteq> [])"

definition text_of :: "string option \<Rightarrow> string" where
  "text_of s = (case s of None \<Rightarrow> ''undefined'' | Some t \<Rightarrow> t)"

definition getImportOutput :: "externals \<Rightarrow> string option \<Rightarrow> string option \<Rightarrow> string" where
  "getImportOutput X dOut eOut =
     (if truthy dOut \<and> \<not> truthy eOut then text_of dOut
      else if \<not> truthy dOut \<and> truthy eOut then text_of eOut
      else if truthy dOut \<and> truthy eOut then
        text_of dOut @ ''\<newline>\<newline>'' @ text_of eOut
      else yellow X ''nothing to import'')"

text \<open>\<open>logObject\<close>: the first key and the first value of the object.\<close>

definition logObject :: "js_object \<Rightarrow> string" where
  "logObject obj =
     ''> '' @ (case obj of [] \<Rightarrow> ''undefined'' | (k, v) # _ \<Rightarrow> k) @ '': ''
          @ (case obj of [] \<Rightarrow> ''undefined'' | (k, v) # _ \<Rightarrow> v)"

definition getWarningOutput :: "externals \<Rightarrow> warnings_obj option \<Rightarrow> string" where
  "getWarningOutput X ws =
     (case ws of
        None \<Rightarrow> []
      | Some wn \<Rightarrow>
          (let output0 = ''\<newline>'';
               output1 =
                 (if notInBoth wn \<noteq> [] then
                    output0
                    @ red_underline X
                        ''\<newline>error - missing the following package dependencies. please install and add to package.json.\<newline>''
                    @ red X (join ''\<newline>'' (map logObject (notInBoth wn)) @ ''\<newline>'')
                  else output0);
               output2 =
                 (if notInPackageJson wn \<noteq> [] then
                    output1
                    @ yellow_underline X
                        ''\<newline>warning - add the following packages to package.json\<newline>''
                    @ yellow X
                        (join ''\<newline>'' (map logObject (notInPackageJson wn)) @ ''\<newline>'')
                  else output1);
               output3 =
                 (if notInNodeModules wn \<noteq> [] then
                    output2
                    @ yellow_underline X
                        ''\<newline>warning - following packages are not installed. please install them.\<newline>''
                    @ yellow X
                        (join ''\<newline>'' (map logObject (notInNodeModules wn)) @ ''\<newline>'')
                  else output2)
           in if output3 = ''\<newline>'' then [] else output3))"

text \<open>
  \<open>report\<close>: the dependency block may throw; otherwise the import output followed by
  the warning output.
\<close>

definition report :: "externals \<Rightarrow> import_results \<Rightarrow> error + string" where
  "report X r =
     (case dependenciesOutput X r of
        Inl e \<Rightarrow> Inl e
      | Inr dOut \<Rightarrow>
          Inr (getImportOutput X dOut (envDependenciesOutput X r)
               @ getWarningOutput X (warnings r)))"

subsection \<open>Concrete externals and results\<close>

text \<open>
  Colours switched off (every style returns its text), a component shown by its id,
  and \<open>immutableUnshift\<close> putting the new entry in front.
\<close>

definition plain :: externals where
  "plain =
     \<lparr> green = (\<lambda>s. s), yellow = (\<lambda>s. s), red = (\<lambda>s. s), red_underline = (\<lambda>s. s),
       yellow_underline = (\<lambda>s. s),
       formatPlainComponentItem = (\<lambda>c. toString (comp_id c)),
       formatPlainComponentItemWithVersions = (\<lambda>c d. toString (comp_id c)),
       immutableUnshift = (\<lambda>arr entry. entry # arr) \<rparr>"

definition foo_id :: component_id where
  "foo_id = \<lparr> scope = ''remote'', name = ''bar/foo'', version = Some ''0.0.1'' \<rparr>"

definition foo2_id :: component_id where
  "foo2_id = \<lparr> scope = ''remote'', name = ''bar/foo2'', version = Some ''0.0.1'' \<rparr>"

definition is_string_id :: component_id where
  "is_string_id = \<lparr> scope = ''remote'', name = ''utils/is-string'', version = Some ''0.0.1'' \<rparr>"

definition foo_component :: component where
  "foo_component = \<lparr> comp_id = foo_id \<rparr>"

definition foo2_component :: component where
  "foo2_component = \<lparr> comp_id = foo2_id \<rparr>"

definition is_string_component :: component where
  "is_string_component = \<lparr> comp_id = is_string_id \<rparr>"

definition mk_dep :: "component \<Rightarrow> component list \<Rightarrow> component_with_dependencies" where
  "mk_dep c ds = \<lparr> component = c, dependencies = ds, devDependencies = [] \<rparr>"

definition mk_details :: "string \<Rightarrow> import_details" where
  "mk_details i = \<lparr> details_id = i, versions = [''0.0.1''], status = ''added'' \<rparr>"

text \<open>One component imported, its details present.\<close>

definition one_imported :: import_results where
  "one_imported =
     \<lparr> r_dependencies = Some [mk_dep foo_component []], r_envDependencies = None,
       importDetails = [mk_details ''remote/bar/foo''], warnings = None,
       displayDependencies = Some False \<rparr>"

text \<open>
  Two components imported, the first with a dependency of its own, and the
  dependencies not asked for.
\<close>

definition two_imported :: import_results where
  "two_imported =
     \<lparr> r_dependencies =
         Some [mk_dep foo_component [is_string_component], mk_dep foo2_component []],
       r_envDependencies = None,
       importDetails = [mk_details ''remote/bar/foo'', mk_details ''remote/bar/foo2''],
       warnings = None, displayDependencies = Some False \<rparr>"

text \<open>Two components resolved and no details record at all.\<close>

definition two_missing :: import_results where
  "two_missing =
     \<lparr> r_dependencies = Some [mk_dep foo_component [], mk_dep is_string_component []],
       r_envDependencies = None, importDetails = [], warnings = None,
       displayDependencies = Some False \<rparr>"

text \<open>One component resolved and no details record for it.\<close>

definition one_missing :: import_results where
  "one_missing =
     \<lparr> r_dependencies = Some [mk_dep foo_component []], r_envDependencies = None,
       importDetails = [], warnings = None, displayDependencies = Some False \<rparr>"

text \<open>Twelve entries imported, all with their details present.\<close>

definition twelve_imported :: import_results where
  "twelve_imported =
     \<lparr> r_dependencies = Some (replicate 12 (mk_dep foo_component [])),
       r_envDependencies = None,
       importDetails = [mk_details ''remote/bar/foo''], warnings = None,
       displayDependencies = Some False \<rparr>"

definition no_warnings :: warnings_obj where
  "no_warnings = \<lparr> notInPackageJson = [], notInNodeModules = [], notInBoth = [] \<rparr>"

definition lodash_warnings :: warnings_obj where
  "lodash_warnings =
     \<lparr> notInPackageJson = [], notInNodeModules = [],
       notInBoth = [[(''lodash'', ''4.17.4'')]] \<rparr>"

text \<open>Warnings with one package in each of the three lists.\<close>

definition all_warnings :: warnings_obj where
  "all_warnings =
     \<lparr> notInPackageJson = [[(''ramda'', ''0.25.0'')]],
       notInNodeModules = [[(''chalk'', ''2.3.0'')]],
       notInBoth = [[(''lodash'', ''4.17.4'')]] \<rparr>"

text \<open>
  What the warning section needs of a chalk style: styled text is not empty unless
  the text is. (chalk wraps a text in escape codes, or returns it as it is.)
\<close>

definition keeps_text :: "(string \<Rightarrow> string) \<Rightarrow> bool" where
  "keeps_text style = (\<forall>s. s \<noteq> [] \<longrightarrow> style s \<noteq> [])"

section \<open>The conflict gate of the engine\<close>

text \<open>
  Modelled from the spec: the engine's Local Conflict Detector is outside src (only
  its end-to-end test is there). \<open>WorkspaceEntry\<close> and \<open>ConflictRecord\<close> are those
  of section 3: an entry records the identifier, the filesystem path, the installed
  version and the content hash of the last synchronised state.
\<close>

record workspace_entry =
  we_identifier :: component_id
  we_path :: string
  we_version :: string
  we_hash :: string

text \<open>
  Modelled from the spec: the reason of a \<open>ConflictRecord\<close> (section 3), which is
  outside src.
\<close>

datatype conflict_reason = LocalModification | VersionMismatch

text \<open>
  Modelled from the spec: \<open>ConflictRecord\<close> (section 3), which is outside src: the
  identifier and the reason.
\<close>

record conflict_record =
  cr_identifier :: component_id
  cr_reason :: conflict_reason

text \<open>
  Modelled from the spec: section 4.4, the detector is outside src. For an identifier
  with an existing workspace entry, the entry's recorded hash is compared with the
  hash found on disk at the entry's path (\<open>disk\<close> maps a path to the hash found
  there); a mismatch is recorded as a conflict.
\<close>

definition conflict_of ::
  "workspace_entry list \<Rightarrow> (string \<Rightarrow> string option) \<Rightarrow> component_id \<Rightarrow> conflict_record list"
where
  "conflict_of entries disk i =
     (case find (\<lambda>e. we_identifier e = i) entries of
        None \<Rightarrow> []
      | Some e \<Rightarrow>
          if disk (we_path e) = Some (we_hash e) then []
          else [\<lparr> cr_identifier = i, cr_reason = LocalModification \<rparr>])"

text \<open>
  Modelled from the spec: section 4.4, the detector is outside src. It goes through
  every identifier of the resolved closure and collects the conflict records.
\<close>

definition detect_conflicts ::
  "component_id list \<Rightarrow> workspace_entry list \<Rightarrow> (string \<Rightarrow> string option) \<Rightarrow> conflict_record list"
where
  "detect_conflicts closure entries disk = concat (map (conflict_of entries disk) closure)"

text \<open>
  Modelled from the spec: section 4.4, the aggregated error is raised outside src. Its
  text enumerates every conflicting identifier after the words the end-to-end test
  looks for (\<open>unable to import\<close>).
\<close>

definition conflict_message :: "conflict_record list \<Rightarrow> string" where
  "conflict_message cs =
     ''unable to import the following components due to local changes: ''
     @ join '', '' (map (\<lambda>c. toString (cr_identifier c)) cs)"

text \<open>
  Modelled from the spec: section 4.4, the gate is outside src. If any conflict record
  exists and the override flag is not set, the whole import aborts with the aggregated
  error; otherwise the closure is accepted and handed on to the writer.
\<close>

definition conflict_gate ::
  "bool \<Rightarrow> component_id list \<Rightarrow> workspace_entry list \<Rightarrow> (string \<Rightarrow> string option)
     \<Rightarrow> error + component_id list"
where
  "conflict_gate ov closure entries disk =
     (let cs = detect_conflicts closure entries disk
      in if cs \<noteq> [] \<and> \<not> ov then Inl (ConflictError (conflict_message cs)) else Inr closure)"

subsection \<open>A concrete workspace\<close>

text \<open>
  The scenario of the end-to-end test: \<open>bar/foo\<close> and \<open>bar/foo2\<close> were imported at
  version 0.0.1 and both files were then changed on disk.
\<close>

definition test_entries :: "workspace_entry list" where
  "test_entries =
     [\<lparr> we_identifier = foo_id, we_path = ''bar/foo.js'', we_version = ''0.0.1'',
        we_hash = ''h1'' \<rparr>,
      \<lparr> we_identifier = foo2_id, we_path = ''components/bar/foo2/foo2.js'',
        we_version = ''0.0.1'', we_hash = ''h2'' \<rparr>]"

definition test_disk :: "string \<Rightarrow> string option" where
  "test_disk p =
     (if p = ''bar/foo.js'' then Some ''h1v2''
      else if p = ''components/bar/foo2/foo2.js'' then Some ''h2v2''
      else None)"

section \<open>Auxiliary facts\<close>

subsection \<open>The component listing\<close>

lemma string_of_nat_2: "string_of_nat 2 = ''2''"
  by code_simp

lemma of_char_digit: "d < 10 \<Longrightarrow> (of_char (digit d) :: nat) = 48 + d"
  by (simp add: digit_def)

lemma string_of_nat_not_Nil: "string_of_nat n \<noteq> []"
  by (subst string_of_nat.simps) simp

lemma string_of_nat_digits:
  "c \<in> set (string_of_nat n) \<Longrightarrow> 48 \<le> (of_char c :: nat) \<and> (of_char c :: nat) \<le> 57"
proof (induction n rule: string_of_nat.induct)
  case (1 n)
  show ?case
  proof (cases "n < 10")
    case True
    with "1.prems" have "c = digit n" by (simp add: string_of_nat.simps [of n])
    with True show ?thesis by (simp add: of_char_digit)
  next
    case False
    with "1.prems" have "c \<in> set (string_of_nat (n div 10)) \<or> c = digit (n mod 10)"
      by (auto simp add: string_of_nat.simps [of n])
    then show ?thesis
    proof
      assume "c \<in> set (string_of_nat (n div 10))"
      with False "1.IH" show ?thesis by simp
    next
      assume "c = digit (n mod 10)"
      then show ?thesis by (simp add: of_char_digit)
    qed
  qed
qed

lemma decimal_value_snoc:
  "decimal_value (s @ [c]) = 10 * decimal_value s + (of_char c - 48)"
  by (simp add: decimal_value_def)

lemma decimal_value_string_of_nat: "decimal_value (string_of_nat n) = n"
proof (induction n rule: string_of_nat.induct)
  case (1 n)
  show ?case
  proof (cases "n < 10")
    case True
    then show ?thesis
      by (simp add: string_of_nat.simps [of n] decimal_value_def of_char_digit)
  next
    case False
    with "1.IH" have "decimal_value (string_of_nat (n div 10)) = n div 10" by simp
    with False show ?thesis
      by (simp add: string_of_nat.simps [of n] decimal_value_snoc of_char_digit)
  qed
qed

lemma string_of_nat_leading_zero: "hd (string_of_nat n) = CHR ''0'' \<Longrightarrow> n = 0"
proof (induction n rule: string_of_nat.induct)
  case (1 n)
  show ?case
  proof (cases "n < 10")
    case True
    with "1.prems" have "digit n = CHR ''0''" by (simp add: string_of_nat.simps [of n])
    then have "(of_char (digit n) :: nat) = of_char (CHR ''0'')" by simp
    with True show ?thesis by (simp add: of_char_digit)
  next
    case False
    with "1.prems" have "hd (string_of_nat (n div 10)) = CHR ''0''"
      by (simp add: string_of_nat.simps [of n] string_of_nat_not_Nil)
    with False "1.IH" have "n div 10 = 0" by simp
    with False show ?thesis by simp
  qed
qed

lemma string_of_nat_0: "string_of_nat 0 = ''0''"
  by code_simp

lemma string_of_nat_12: "string_of_nat 12 = ''12''"
  by code_simp

lemma is_decimal_of_string_of_nat: "is_decimal_of (string_of_nat n) n"
  unfolding is_decimal_of_def
proof (intro conjI ballI impI)
  show "string_of_nat n \<noteq> []" by (rule string_of_nat_not_Nil)
next
  fix c assume "c \<in> set (string_of_nat n)"
  then show "48 \<le> (of_char c :: nat)" "(of_char c :: nat) \<le> 57"
    using string_of_nat_digits by blast+
next
  show "decimal_value (string_of_nat n) = n" by (rule decimal_value_string_of_nat)
next
  assume "hd (string_of_nat n) = CHR ''0''"
  then have "n = 0" by (rule string_of_nat_leading_zero)
  then show "string_of_nat n = ''0''" by (simp add: string_of_nat_0)
qed

lemma join_Cons: "items \<noteq> [] \<Longrightarrow> join sep (x # items) = x @ sep @ join sep items"
  by (cases items) simp_all

lemma componentDependencies_all_found:
  "\<forall>c \<in> set cs. find_details ds c \<noteq> None \<Longrightarrow>
   \<exists>items. componentDependencies X ds cs = Inr items \<and> length items = length cs"
  by (induction cs) auto

lemma componentDependencies_first_missing:
  "\<forall>p \<in> set found. find_details ds p \<noteq> None \<Longrightarrow> find_details ds c = None \<Longrightarrow>
   componentDependencies X ds (found @ c # rest) =
     Inl (Error (''missing details of component '' @ toString (comp_id c)))"
  by (induction found) auto

lemma getImportOutput_starts:
  "d \<noteq> [] \<Longrightarrow> \<exists>rest. getImportOutput X (Some d) eOut = d @ rest"
  by (simp add: getImportOutput_def truthy_def text_of_def)

lemma report_starts_with_title:
  assumes "r_dependencies r = Some deps" and "deps \<noteq> []"
    and "\<forall>d \<in> set deps. find_details (importDetails r) (component d) \<noteq> None"
  shows "\<exists>rest. report X r = Inr (green X (title (length deps)) @ ''\<newline>'' @ rest)"
proof -
  from assms(3) have "\<forall>c \<in> set (map component deps). find_details (importDetails r) c \<noteq> None"
    by simp
  from componentDependencies_all_found [OF this]
  obtain items where items:
    "componentDependencies X (importDetails r) (map component deps) = Inr items"
    "length items = length deps"
    by auto
  with assms(2) have ne: "items \<noteq> []" by auto
  define d where "d = componentDependenciesOutput X (length deps) items
                        @ peerDependenciesOutput X (peerDependencies deps) (length deps)
                            (displayDependencies r)"
  have dout: "dependenciesOutput X r = Inr (Some d)"
    using assms(1,2) items(1) by (simp add: dependenciesOutput_def d_def)
  have dshape: "d = green X (title (length deps)) @ ''\<newline>'' @
                  (join ''\<newline>'' items
                   @ peerDependenciesOutput X (peerDependencies deps) (length deps)
                       (displayDependencies r))"
    using ne by (simp add: d_def componentDependenciesOutput_def join_Cons)
  then have "d \<noteq> []" by simp
  from getImportOutput_starts [OF this, of X "envDependenciesOutput X r"]
  obtain rest where "getImportOutput X (Some d) (envDependenciesOutput X r) = d @ rest" ..
  then have "report X r = Inr (d @ rest @ getWarningOutput X (warnings r))"
    by (simp add: report_def dout)
  with dshape show ?thesis by simp
qed

subsection \<open>The warnings do not reach the dependency blocks\<close>

lemma dependenciesOutput_warnings [simp]:
  "dependenciesOutput X (r\<lparr>warnings := ws\<rparr>) = dependenciesOutput X r"
  by (simp add: dependenciesOutput_def split: option.split sum.split)

lemma envDependenciesOutput_warnings [simp]:
  "envDependenciesOutput X (r\<lparr>warnings := ws\<rparr>) = envDependenciesOutput X r"
  by (simp add: envDependenciesOutput_def split: option.split)

lemma getWarningOutput_None [simp]: "getWarningOutput X None = []"
  by (simp add: getWarningOutput_def)

lemma dependenciesOutput_returns:
  assumes "\<forall>deps. r_dependencies r = Some deps \<longrightarrow>
             (\<forall>d \<in> set deps. find_details (importDetails r) (component d) \<noteq> None)"
  shows "\<exists>dOut. dependenciesOutput X r = Inr dOut"
proof (cases "r_dependencies r")
  case None
  then show ?thesis by (simp add: dependenciesOutput_def)
next
  case (Some deps)
  with assms have "\<forall>c \<in> set (map component deps). find_details (importDetails r) c \<noteq> None"
    by simp
  from componentDependencies_all_found [OF this]
  obtain items where "componentDependencies X (importDetails r) (map component deps) = Inr items"
    by blast
  with Some show ?thesis by (simp add: dependenciesOutput_def)
qed

lemma getWarningOutput_blocks:
  "getWarningOutput X (Some wn) =
     (let body =
        (if notInBoth wn = [] then []
         else red_underline X
                ''\<newline>error - missing the following package dependencies. please install and add to package.json.\<newline>''
              @ red X (join ''\<newline>'' (map logObject (notInBoth wn)) @ ''\<newline>''))
        @ (if notInPackageJson wn = [] then []
           else yellow_underline X
                  ''\<newline>warning - add the following packages to package.json\<newline>''
                @ yellow X
                    (join ''\<newline>'' (map logObject (notInPackageJson wn)) @ ''\<newline>''))
        @ (if notInNodeModules wn = [] then []
           else yellow_underline X
                  ''\<newline>warning - following packages are not installed. please install them.\<newline>''
                @ yellow X
                    (join ''\<newline>'' (map logObject (notInNodeModules wn)) @ ''\<newline>''))
      in if body = [] then [] else ''\<newline>'' @ body)"
  unfolding getWarningOutput_def Let_def by simp

subsection \<open>A joined list contains each of its elements\<close>

lemma sublist_after: "sublist x ys \<Longrightarrow> sublist x (p @ ys)"
  by (metis sublist_append_leftI sublist_order.order_trans)

lemma sublist_join: "x \<in> set xs \<Longrightarrow> sublist x (join sep xs)"
proof (induction sep xs rule: join.induct)
  case (1 sep)
  then show ?case by simp
next
  case (2 sep y)
  then show ?case by simp
next
  case (3 sep y z zs)
  show ?case
  proof (cases "x = y")
    case True
    then show ?thesis by simp
  next
    case False
    with 3 have "sublist x (join sep (z # zs))" by simp
    then have "sublist x ((y @ sep) @ join sep (z # zs))"
      by (rule sublist_after)
    then show ?thesis by simp
  qed
qed

lemma conflict_of_member:
  assumes "find (\<lambda>e. we_identifier e = i) entries = Some e"
    and "disk (we_path e) \<noteq> Some (we_hash e)"
  shows "conflict_of entries disk i = [\<lparr> cr_identifier = i, cr_reason = LocalModification \<rparr>]"
  using assms by (simp add: conflict_of_def)

section \<open>Flag validation\<close>

text \<open>
  C2. With both the tester and the compiler flag set, \<open>action\<close> throws the
  GeneralError of the first check and the engine is not called: the outcome is the
  same for every engine, and the world is left as it was.
\<close>

theorem tester_and_compiler_rejected:
  assumes "orFalse (flag_tester fl)" and "orFalse (flag_compiler fl)"
  shows "action importAction is fl packageManagerArgs w =
           (Inl (GeneralError ''you cant use tester and compiler flags combined''), w)"
  using assms by (simp add: action_def)

theorem tester_and_compiler_rejected_witness:
  "orFalse (flag_tester (no_flags\<lparr>flag_tester := Some True, flag_compiler := Some True\<rparr>)) \<and>
   orFalse (flag_compiler (no_flags\<lparr>flag_tester := Some True, flag_compiler := Some True\<rparr>)) \<and>
   action recording_engine [''bar/foo'']
       (no_flags\<lparr>flag_tester := Some True, flag_compiler := Some True\<rparr>) [] [] =
     (Inl (GeneralError ''you cant use tester and compiler flags combined''), [])"
proof -
  let ?fl = "no_flags\<lparr>flag_tester := Some True, flag_compiler := Some True\<rparr>"
  have t: "orFalse (flag_tester ?fl)" by (simp add: orFalse_def no_flags_def)
  have c: "orFalse (flag_compiler ?fl)" by (simp add: orFalse_def no_flags_def)
  from tester_and_compiler_rejected [OF t c, of recording_engine "[''bar/foo'']" "[]" "[]"] t c
  show ?thesis by simp
qed

text \<open>
  C3 as stated fails where an earlier check fires first: with tester, compiler,
  objects and write all set, the error thrown is that of the tester/compiler check,
  whose text names neither \<open>--objects\<close> nor \<open>--write\<close>.
\<close>

theorem objects_write_error_counterexample:
  "action recording_engine []
       (no_flags\<lparr>flag_tester := Some True, flag_compiler := Some True,
                 flag_objects := Some True, flag_write := Some True\<rparr>) [] [] =
     (Inl (GeneralError ''you cant use tester and compiler flags combined''), []) \<and>
   \<not> sublist ''--objects'' ''you cant use tester and compiler flags combined'' \<and>
   \<not> sublist ''--write'' ''you cant use tester and compiler flags combined''"
  by (simp add: action_def orFalse_def no_flags_def sublist_code(3))

text \<open>
  C3, amended. Every invocation with the write flag and either the objects flag or
  explicit ids is rejected with a GeneralError, for every engine and with the world
  left as it was. The error is that of the first failing check in the source's order:
  tester with compiler, then \<open>--objects\<close> with \<open>--write\<close>, then \<open>--write\<close> with
  specific ids.
\<close>

theorem write_combinations_rejected:
  assumes "orFalse (flag_write fl)" and "orFalse (flag_objects fl) \<or> is \<noteq> []"
  shows "action importAction is fl packageManagerArgs w =
           (Inl (GeneralError
              (if orFalse (flag_tester fl) \<and> orFalse (flag_compiler fl)
               then ''you cant use tester and compiler flags combined''
               else if orFalse (flag_objects fl)
               then ''you cant use --objects and --write flags combined''
               else ''you cant use --write flag when importing specific ids'')), w)"
  using assms by (auto simp add: action_def)

theorem write_combinations_rejected_witness:
  "orFalse (flag_write (no_flags\<lparr>flag_write := Some True\<rparr>)) \<and>
   [''bar/foo''] \<noteq> ([] :: string list) \<and>
   action recording_engine [''bar/foo''] (no_flags\<lparr>flag_write := Some True\<rparr>) [] [] =
     (Inl (GeneralError ''you cant use --write flag when importing specific ids''), []) \<and>
   sublist ''--write'' ''you cant use --write flag when importing specific ids'' \<and>
   sublist ''specific ids'' ''you cant use --write flag when importing specific ids''"
proof -
  let ?fl = "no_flags\<lparr>flag_write := Some True\<rparr>"
  have wr: "orFalse (flag_write ?fl)" by (simp add: orFalse_def no_flags_def)
  have ne: "orFalse (flag_objects ?fl) \<or> [''bar/foo''] \<noteq> ([] :: string list)" by simp
  have nt: "\<not> orFalse (flag_tester ?fl)" "\<not> orFalse (flag_objects ?fl)"
    by (simp_all add: orFalse_def no_flags_def)
  from write_combinations_rejected [OF wr ne, of recording_engine "[]" "[]"] wr nt
  show ?thesis by (simp add: sublist_code(3))
qed

section \<open>The options passed to the engine\<close>

text \<open>
  C4 as stated fails on \<open>objectsOnly\<close>: with no ids and no option given, the engine
  is called once, with \<open>objectsOnly = false\<close> (and \<open>writeToFs = false\<close>). \<open>action\<close>
  forwards the objects flag as it was given; it does not switch the policy itself.
\<close>

theorem import_all_objectsOnly_counterexample:
  "snd (action recording_engine [] no_flags [] []) =
     [(environmentOptions_of no_flags, importOptions_of [] no_flags, [])] \<and>
   objectsOnly (importOptions_of [] no_flags) = False \<and>
   writeToFs (importOptions_of [] no_flags) = False"
  by (simp add: action_def recording_engine_def importOptions_of_def orFalse_def no_flags_def)

text \<open>
  C4, amended. With no ids and without the write flag (and not tester with compiler,
  which is rejected), \<open>action\<close> calls the engine with the options built from the
  flags: no ids, \<open>writeToFs = false\<close>, and \<open>objectsOnly\<close> equal to the objects flag
  as given, \<open>false\<close> by default.
\<close>

theorem import_all_options:
  assumes "\<not> orFalse (flag_write fl)"
    and "\<not> (orFalse (flag_tester fl) \<and> orFalse (flag_compiler fl))"
  shows "action importAction [] fl packageManagerArgs w =
           (case importAction (environmentOptions_of fl) (importOptions_of [] fl)
                   packageManagerArgs w of
              (Inl e, w') \<Rightarrow> (Inl e, w')
            | (Inr importResults, w') \<Rightarrow>
                (Inr (importResults
                   \<lparr> displayDependencies := Some (orFalse (flag_displayDependencies fl)) \<rparr>),
                 w')) \<and>
         ids (importOptions_of [] fl) = [] \<and>
         writeToFs (importOptions_of [] fl) = False \<and>
         objectsOnly (importOptions_of [] fl) = orFalse (flag_objects fl)"
  using assms by (auto simp add: action_def importOptions_of_def)

theorem import_all_options_witness:
  "\<not> orFalse (flag_write (no_flags\<lparr>flag_objects := Some True\<rparr>)) \<and>
   \<not> (orFalse (flag_tester (no_flags\<lparr>flag_objects := Some True\<rparr>)) \<and>
      orFalse (flag_compiler (no_flags\<lparr>flag_objects := Some True\<rparr>))) \<and>
   action recording_engine [] (no_flags\<lparr>flag_objects := Some True\<rparr>) [] [] =
     (Inr (empty_results\<lparr>displayDependencies := Some False\<rparr>),
      [(environmentOptions_of (no_flags\<lparr>flag_objects := Some True\<rparr>),
        importOptions_of [] (no_flags\<lparr>flag_objects := Some True\<rparr>), [])]) \<and>
   writeToFs (importOptions_of [] (no_flags\<lparr>flag_objects := Some True\<rparr>)) = False \<and>
   objectsOnly (importOptions_of [] (no_flags\<lparr>flag_objects := Some True\<rparr>)) = True"
proof -
  let ?fl = "no_flags\<lparr>flag_objects := Some True\<rparr>"
  have wr: "\<not> orFalse (flag_write ?fl)" by (simp add: orFalse_def no_flags_def)
  have tc: "\<not> (orFalse (flag_tester ?fl) \<and> orFalse (flag_compiler ?fl))"
    by (simp add: orFalse_def no_flags_def)
  have ob: "orFalse (flag_objects ?fl)" "\<not> orFalse (flag_displayDependencies ?fl)"
    by (simp_all add: orFalse_def no_flags_def)
  from import_all_options [OF wr tc, of recording_engine "[]" "[]"] wr tc ob
  show ?thesis by (simp add: recording_engine_def)
qed

section \<open>What the report prints\<close>

text \<open>
  C5. When the result has no component dependencies and no environment dependencies
  (each absent or empty), \<open>report\<close> returns normally and its import output is the
  message \<open>nothing to import\<close> (in chalk's yellow), followed by the warning output.
\<close>

theorem nothing_to_import:
  assumes "r_dependencies r = None \<or> r_dependencies r = Some []"
    and "r_envDependencies r = None \<or> r_envDependencies r = Some []"
  shows "report X r = Inr (yellow X ''nothing to import'' @ getWarningOutput X (warnings r))"
  using assms
  by (auto simp add: report_def dependenciesOutput_def envDependenciesOutput_def
        getImportOutput_def truthy_def)

theorem nothing_to_import_witness:
  "(r_dependencies empty_results = None \<or> r_dependencies empty_results = Some []) \<and>
   (r_envDependencies empty_results = None \<or> r_envDependencies empty_results = Some []) \<and>
   report plain empty_results = Inr ''nothing to import''"
proof -
  have d: "r_dependencies empty_results = None \<or> r_dependencies empty_results = Some []"
    by (simp add: empty_results_def)
  have e: "r_envDependencies empty_results = None \<or> r_envDependencies empty_results = Some []"
    by (simp add: empty_results_def)
  have w: "warnings empty_results = None" by (simp add: empty_results_def)
  from nothing_to_import [OF d e, of plain] d e w
  show ?thesis by (simp add: plain_def)
qed

text \<open>
  C6 as stated fails for a result whose component has no details record: with one
  component and no record, \<open>report\<close> throws and no title is printed.
\<close>

theorem report_title_missing_counterexample:
  "r_dependencies one_missing = Some [mk_dep foo_component []] \<and>
   length [mk_dep foo_component []] = 1 \<and>
   report plain one_missing =
     Inl (Error ''missing details of component remote/bar/foo@0.0.1'')"
  by (simp add: one_missing_def find_details_def mk_dep_def report_def dependenciesOutput_def
        foo_component_def foo_id_def toString_def toStringWithoutVersion_def)

text \<open>
  C6, amended. For every result in which each imported component has its details
  record, the report starts with the title line: \<open>successfully imported one
  component\<close> for exactly one component, and \<open>successfully imported n components\<close>
  for \<open>n > 1\<close>, where the text printed for \<open>n\<close> is its decimal numeral.
\<close>

theorem report_title:
  assumes "r_dependencies r = Some deps"
    and "\<forall>d \<in> set deps. find_details (importDetails r) (component d) \<noteq> None"
  shows "(length deps = 1 \<longrightarrow>
            (\<exists>rest. report X r =
               Inr (green X ''successfully imported one component'' @ ''\<newline>'' @ rest))) \<and>
         (1 < length deps \<longrightarrow>
            (\<exists>rest. report X r =
               Inr (green X (''successfully imported '' @ string_of_nat (length deps)
                               @ '' components'') @ ''\<newline>'' @ rest)) \<and>
            is_decimal_of (string_of_nat (length deps)) (length deps))"
proof (intro conjI impI)
  assume one: "length deps = 1"
  then have "deps \<noteq> []" by auto
  from report_starts_with_title [OF assms(1) this assms(2), of X] one
  show "\<exists>rest. report X r =
          Inr (green X ''successfully imported one component'' @ ''\<newline>'' @ rest)"
    by (simp add: title_def)
next
  assume many: "1 < length deps"
  then have "deps \<noteq> []" by auto
  from report_starts_with_title [OF assms(1) this assms(2), of X] many
  show "\<exists>rest. report X r =
          Inr (green X (''successfully imported '' @ string_of_nat (length deps)
                          @ '' components'') @ ''\<newline>'' @ rest)"
    by (simp add: title_def)
next
  show "is_decimal_of (string_of_nat (length deps)) (length deps)"
    by (rule is_decimal_of_string_of_nat)
qed

theorem report_title_witness:
  "r_dependencies one_imported = Some [mk_dep foo_component []] \<and>
   find_details (importDetails one_imported) (component (mk_dep foo_component [])) \<noteq> None \<and>
   length [mk_dep foo_component []] = 1 \<and>
   (\<exists>rest. report plain one_imported =
      Inr (green plain ''successfully imported one component'' @ ''\<newline>'' @ rest)) \<and>
   r_dependencies two_imported =
     Some [mk_dep foo_component [is_string_component], mk_dep foo2_component []] \<and>
   find_details (importDetails two_imported)
     (component (mk_dep foo_component [is_string_component])) \<noteq> None \<and>
   find_details (importDetails two_imported) (component (mk_dep foo2_component [])) \<noteq> None \<and>
   (\<exists>rest. report plain two_imported =
      Inr (green plain ''successfully imported 2 components'' @ ''\<newline>'' @ rest)) \<and>
   is_decimal_of ''2'' 2 \<and>
   r_dependencies twelve_imported = Some (replicate 12 (mk_dep foo_component [])) \<and>
   length (replicate 12 (mk_dep foo_component [])) = 12 \<and>
   (\<exists>rest. report plain twelve_imported =
      Inr (green plain ''successfully imported 12 components'' @ ''\<newline>'' @ rest)) \<and>
   is_decimal_of ''12'' 12"
proof -
  have d1: "r_dependencies one_imported = Some [mk_dep foo_component []]"
    by (simp add: one_imported_def)
  have f1: "find_details (importDetails one_imported) (component (mk_dep foo_component []))
              \<noteq> None"
    by (simp add: one_imported_def find_details_def mk_dep_def mk_details_def
          foo_component_def foo_id_def toStringWithoutVersion_def)
  have a1: "\<forall>d \<in> set [mk_dep foo_component []].
              find_details (importDetails one_imported) (component d) \<noteq> None"
    using f1 by simp
  have d2: "r_dependencies two_imported =
              Some [mk_dep foo_component [is_string_component], mk_dep foo2_component []]"
    by (simp add: two_imported_def)
  have f2: "find_details (importDetails two_imported)
              (component (mk_dep foo_component [is_string_component])) \<noteq> None"
    by (simp add: two_imported_def find_details_def mk_dep_def mk_details_def
          foo_component_def foo_id_def toStringWithoutVersion_def)
  have f3: "find_details (importDetails two_imported) (component (mk_dep foo2_component []))
              \<noteq> None"
    by (simp add: two_imported_def find_details_def mk_dep_def mk_details_def
          foo2_component_def foo2_id_def toStringWithoutVersion_def)
  have a2: "\<forall>d \<in> set [mk_dep foo_component [is_string_component], mk_dep foo2_component []].
              find_details (importDetails two_imported) (component d) \<noteq> None"
    using f2 f3 by simp
  have d3: "r_dependencies twelve_imported = Some (replicate 12 (mk_dep foo_component []))"
    by (simp add: twelve_imported_def)
  have f4: "find_details (importDetails twelve_imported) (component (mk_dep foo_component []))
              \<noteq> None"
    by (simp add: twelve_imported_def find_details_def mk_dep_def mk_details_def
          foo_component_def foo_id_def toStringWithoutVersion_def)
  have a3: "\<forall>d \<in> set (replicate 12 (mk_dep foo_component [])).
              find_details (importDetails twelve_imported) (component d) \<noteq> None"
    using f4 by simp
  have l2: "length [mk_dep foo_component [is_string_component], mk_dep foo2_component []] = 2"
    by simp
  have l3: "length (replicate 12 (mk_dep foo_component [])) = 12" by simp
  have c1: "\<exists>rest. report plain one_imported =
      Inr (green plain ''successfully imported one component'' @ ''\<newline>'' @ rest)"
    using report_title [OF d1 a1, of plain] by simp
  have c2: "(\<exists>rest. report plain two_imported =
      Inr (green plain ''successfully imported 2 components'' @ ''\<newline>'' @ rest)) \<and>
      is_decimal_of ''2'' 2"
    using report_title [OF d2 a2, of plain] unfolding l2 by (simp add: string_of_nat_2)
  have c3: "(\<exists>rest. report plain twelve_imported =
      Inr (green plain ''successfully imported 12 components'' @ ''\<newline>'' @ rest)) \<and>
      is_decimal_of ''12'' 12"
    using report_title [OF d3 a3, of plain] unfolding l3 by (simp add: string_of_nat_12)
  from d1 f1 c1 d2 f2 f3 c2 d3 l3 c3 show ?thesis by simp
qed

text \<open>
  C7 as stated fails for a component that is not the first without details: with
  two components and no details record, the error names the first component only.
\<close>

theorem missing_details_second_counterexample:
  "r_dependencies two_missing = Some [mk_dep foo_component [], mk_dep is_string_component []] \<and>
   find_details (importDetails two_missing) (component (mk_dep is_string_component [])) = None \<and>
   toString (comp_id is_string_component) = ''remote/utils/is-string@0.0.1'' \<and>
   report plain two_missing =
     Inl (Error ''missing details of component remote/bar/foo@0.0.1'') \<and>
   \<not> sublist ''remote/utils/is-string@0.0.1''
       ''missing details of component remote/bar/foo@0.0.1''"
  by (simp add: two_missing_def find_details_def mk_dep_def report_def dependenciesOutput_def
        foo_component_def foo_id_def is_string_component_def is_string_id_def
        toString_def toStringWithoutVersion_def sublist_code(3))

text \<open>
  C7, amended. If any component of the dependency list has no details record matching
  its id without version, \<open>report\<close> throws an \<open>Error\<close> whose message names the id of
  the first such component in list order.
\<close>

theorem missing_details_fatal:
  assumes "r_dependencies r = Some deps"
    and "\<exists>d \<in> set deps. find_details (importDetails r) (component d) = None"
  shows "\<exists>found c rest.
           map component deps = found @ c # rest \<and>
           (\<forall>p \<in> set found. find_details (importDetails r) p \<noteq> None) \<and>
           find_details (importDetails r) c = None \<and>
           report X r = Inl (Error (''missing details of component '' @ toString (comp_id c)))"
proof -
  from assms(2) have "\<exists>c \<in> set (map component deps). find_details (importDetails r) c = None"
    by auto
  from split_list_first_prop [OF this]
  obtain found c rest where sp: "map component deps = found @ c # rest"
    "find_details (importDetails r) c = None"
    "\<forall>p \<in> set found. find_details (importDetails r) p \<noteq> None"
    by blast
  from assms(2) have ne: "deps \<noteq> []" by auto
  have "componentDependencies X (importDetails r) (map component deps) =
          Inl (Error (''missing details of component '' @ toString (comp_id c)))"
    unfolding sp(1) by (rule componentDependencies_first_missing [OF sp(3) sp(2)])
  then have "report X r = Inl (Error (''missing details of component '' @ toString (comp_id c)))"
    using assms(1) ne by (simp add: report_def dependenciesOutput_def)
  with sp show ?thesis by blast
qed

theorem missing_details_fatal_witness:
  "r_dependencies two_missing = Some [mk_dep foo_component [], mk_dep is_string_component []] \<and>
   find_details (importDetails two_missing) (component (mk_dep foo_component [])) = None \<and>
   (\<exists>found c rest.
      map component [mk_dep foo_component [], mk_dep is_string_component []]
        = found @ c # rest \<and>
      (\<forall>p \<in> set found. find_details (importDetails two_missing) p \<noteq> None) \<and>
      find_details (importDetails two_missing) c = None \<and>
      report plain two_missing =
        Inl (Error (''missing details of component '' @ toString (comp_id c)))) \<and>
   report plain two_missing =
     Inl (Error ''missing details of component remote/bar/foo@0.0.1'')"
proof -
  have d: "r_dependencies two_missing =
             Some [mk_dep foo_component [], mk_dep is_string_component []]"
    by (simp add: two_missing_def)
  have f: "find_details (importDetails two_missing) (component (mk_dep foo_component [])) = None"
    by (simp add: two_missing_def find_details_def)
  have m: "\<exists>d \<in> set [mk_dep foo_component [], mk_dep is_string_component []].
             find_details (importDetails two_missing) (component d) = None"
    using f by simp
  have c: "report plain two_missing =
             Inl (Error ''missing details of component remote/bar/foo@0.0.1'')"
    by (simp add: two_missing_def find_details_def mk_dep_def report_def dependenciesOutput_def
          foo_component_def foo_id_def toString_def toStringWithoutVersion_def)
  from missing_details_fatal [OF d m, of plain] d f c
  show ?thesis by blast
qed



section \<open>The warning output\<close>

text \<open>
  C8. The warnings never make \<open>report\<close> throw. Whatever the warnings are, the report
  throws exactly when it throws without them; and whenever every component has its
  details record, the report returns normally: its text is the import output followed
  by the warning output. The warning output is empty without a warnings object, and
  otherwise it is, after an opening line break, the \<open>notInBoth\<close> block in chalk's
  red, the \<open>notInPackageJson\<close> block and the \<open>notInNodeModules\<close> block in chalk's
  yellow, each present when its list is not empty (and nothing at all when all three
  are empty).
\<close>

theorem warnings_never_block:
  "report X (r\<lparr>warnings := ws\<rparr>) =
     (case report X (r\<lparr>warnings := None\<rparr>) of
        Inl e \<Rightarrow> Inl e
      | Inr out \<Rightarrow> Inr (out @ getWarningOutput X ws)) \<and>
   ((\<forall>deps. r_dependencies r = Some deps \<longrightarrow>
       (\<forall>d \<in> set deps. find_details (importDetails r) (component d) \<noteq> None)) \<longrightarrow>
    (\<exists>dOut. dependenciesOutput X r = Inr dOut \<and>
       report X (r\<lparr>warnings := ws\<rparr>) =
         Inr (getImportOutput X dOut (envDependenciesOutput X r) @ getWarningOutput X ws))) \<and>
   getWarningOutput X None = [] \<and>
   getWarningOutput X (Some wn) =
     (let body =
        (if notInBoth wn = [] then []
         else red_underline X
                ''\<newline>error - missing the following package dependencies. please install and add to package.json.\<newline>''
              @ red X (join ''\<newline>'' (map logObject (notInBoth wn)) @ ''\<newline>''))
        @ (if notInPackageJson wn = [] then []
           else yellow_underline X
                  ''\<newline>warning - add the following packages to package.json\<newline>''
                @ yellow X
                    (join ''\<newline>'' (map logObject (notInPackageJson wn)) @ ''\<newline>''))
        @ (if notInNodeModules wn = [] then []
           else yellow_underline X
                  ''\<newline>warning - following packages are not installed. please install them.\<newline>''
                @ yellow X
                    (join ''\<newline>'' (map logObject (notInNodeModules wn)) @ ''\<newline>''))
      in if body = [] then [] else ''\<newline>'' @ body)"
proof (intro conjI impI)
  show "report X (r\<lparr>warnings := ws\<rparr>) =
     (case report X (r\<lparr>warnings := None\<rparr>) of
        Inl e \<Rightarrow> Inl e
      | Inr out \<Rightarrow> Inr (out @ getWarningOutput X ws))"
    by (cases "dependenciesOutput X r") (simp_all add: report_def)
next
  assume "\<forall>deps. r_dependencies r = Some deps \<longrightarrow>
       (\<forall>d \<in> set deps. find_details (importDetails r) (component d) \<noteq> None)"
  from dependenciesOutput_returns [OF this, of X]
  obtain dOut where "dependenciesOutput X r = Inr dOut" ..
  then show "\<exists>dOut. dependenciesOutput X r = Inr dOut \<and>
       report X (r\<lparr>warnings := ws\<rparr>) =
         Inr (getImportOutput X dOut (envDependenciesOutput X r) @ getWarningOutput X ws)"
    by (simp add: report_def)
next
  show "getWarningOutput X None = []" by simp
next
  show "getWarningOutput X (Some wn) =
     (let body =
        (if notInBoth wn = [] then []
         else red_underline X
                ''\<newline>error - missing the following package dependencies. please install and add to package.json.\<newline>''
              @ red X (join ''\<newline>'' (map logObject (notInBoth wn)) @ ''\<newline>''))
        @ (if notInPackageJson wn = [] then []
           else yellow_underline X
                  ''\<newline>warning - add the following packages to package.json\<newline>''
                @ yellow X
                    (join ''\<newline>'' (map logObject (notInPackageJson wn)) @ ''\<newline>''))
        @ (if notInNodeModules wn = [] then []
           else yellow_underline X
                  ''\<newline>warning - following packages are not installed. please install them.\<newline>''
                @ yellow X
                    (join ''\<newline>'' (map logObject (notInNodeModules wn)) @ ''\<newline>''))
      in if body = [] then [] else ''\<newline>'' @ body)"
    by (rule getWarningOutput_blocks)
qed

theorem warnings_never_block_witness:
  "r_dependencies one_imported = Some [mk_dep foo_component []] \<and>
   find_details (importDetails one_imported) (component (mk_dep foo_component [])) \<noteq> None \<and>
   dependenciesOutput plain one_imported =
     Inr (Some ''successfully imported one component\<newline>remote/bar/foo@0.0.1'') \<and>
   getWarningOutput plain (Some all_warnings) =
     ''\<newline>\<newline>error - missing the following package dependencies. please install and add to package.json.\<newline>> lodash: 4.17.4\<newline>\<newline>warning - add the following packages to package.json\<newline>> ramda: 0.25.0\<newline>\<newline>warning - following packages are not installed. please install them.\<newline>> chalk: 2.3.0\<newline>'' \<and>
   report plain (one_imported\<lparr>warnings := Some all_warnings\<rparr>) =
     Inr ''successfully imported one component\<newline>remote/bar/foo@0.0.1\<newline>\<newline>error - missing the following package dependencies. please install and add to package.json.\<newline>> lodash: 4.17.4\<newline>\<newline>warning - add the following packages to package.json\<newline>> ramda: 0.25.0\<newline>\<newline>warning - following packages are not installed. please install them.\<newline>> chalk: 2.3.0\<newline>''"
proof -
  note inst = warnings_never_block [where X = plain and r = one_imported
               and ws = "Some all_warnings" and wn = all_warnings]
  have d: "r_dependencies one_imported = Some [mk_dep foo_component []]"
    by (simp add: one_imported_def)
  have f: "find_details (importDetails one_imported) (component (mk_dep foo_component []))
             \<noteq> None"
    by (simp add: one_imported_def find_details_def mk_dep_def mk_details_def
          foo_component_def foo_id_def toStringWithoutVersion_def)
  have h: "\<forall>deps. r_dependencies one_imported = Some deps \<longrightarrow>
             (\<forall>d \<in> set deps. find_details (importDetails one_imported) (component d) \<noteq> None)"
    using d f by simp
  have dout: "dependenciesOutput plain one_imported =
                Inr (Some ''successfully imported one component\<newline>remote/bar/foo@0.0.1'')"
    by (simp add: dependenciesOutput_def one_imported_def find_details_def mk_dep_def
          mk_details_def foo_component_def foo_id_def toString_def toStringWithoutVersion_def
          componentDependenciesOutput_def peerDependenciesOutput_def title_def plain_def)
  have env: "envDependenciesOutput plain one_imported = None"
    by (simp add: envDependenciesOutput_def one_imported_def)
  have imp: "getImportOutput plain
               (Some ''successfully imported one component\<newline>remote/bar/foo@0.0.1'') None
             = ''successfully imported one component\<newline>remote/bar/foo@0.0.1''"
    by (simp add: getImportOutput_def truthy_def text_of_def)
  from inst have "getWarningOutput plain (Some all_warnings) =
     (let body =
        (if notInBoth all_warnings = [] then []
         else red_underline plain
                ''\<newline>error - missing the following package dependencies. please install and add to package.json.\<newline>''
              @ red plain (join ''\<newline>'' (map logObject (notInBoth all_warnings)) @ ''\<newline>''))
        @ (if notInPackageJson all_warnings = [] then []
           else yellow_underline plain
                  ''\<newline>warning - add the following packages to package.json\<newline>''
                @ yellow plain
                    (join ''\<newline>'' (map logObject (notInPackageJson all_warnings)) @ ''\<newline>''))
        @ (if notInNodeModules all_warnings = [] then []
           else yellow_underline plain
                  ''\<newline>warning - following packages are not installed. please install them.\<newline>''
                @ yellow plain
                    (join ''\<newline>'' (map logObject (notInNodeModules all_warnings)) @ ''\<newline>''))
      in if body = [] then [] else ''\<newline>'' @ body)"
    by blast
  then have w: "getWarningOutput plain (Some all_warnings) =
     ''\<newline>\<newline>error - missing the following package dependencies. please install and add to package.json.\<newline>> lodash: 4.17.4\<newline>\<newline>warning - add the following packages to package.json\<newline>> ramda: 0.25.0\<newline>\<newline>warning - following packages are not installed. please install them.\<newline>> chalk: 2.3.0\<newline>''"
    by (simp add: all_warnings_def plain_def logObject_def)
  from inst h obtain dOut where
    "dependenciesOutput plain one_imported = Inr dOut"
    "report plain (one_imported\<lparr>warnings := Some all_warnings\<rparr>) =
       Inr (getImportOutput plain dOut (envDependenciesOutput plain one_imported)
            @ getWarningOutput plain (Some all_warnings))"
    by blast
  with dout env imp w have r: "report plain (one_imported\<lparr>warnings := Some all_warnings\<rparr>) =
     Inr ''successfully imported one component\<newline>remote/bar/foo@0.0.1\<newline>\<newline>error - missing the following package dependencies. please install and add to package.json.\<newline>> lodash: 4.17.4\<newline>\<newline>warning - add the following packages to package.json\<newline>> ramda: 0.25.0\<newline>\<newline>warning - following packages are not installed. please install them.\<newline>> chalk: 2.3.0\<newline>''"
    by simp
  from d f dout w r show ?thesis by (intro conjI)
qed

text \<open>
  C10. For chalk styles that keep a non-empty text non-empty, the warning output is
  the empty string exactly when the warnings object is absent or its three lists are
  all empty.
\<close>

theorem warning_output_empty_iff:
  assumes "keeps_text (red_underline X)" and "keeps_text (yellow_underline X)"
  shows "getWarningOutput X ws = [] \<longleftrightarrow>
           (ws = None \<or>
            (\<exists>wn. ws = Some wn \<and> notInBoth wn = [] \<and> notInPackageJson wn = [] \<and>
                  notInNodeModules wn = []))"
proof (cases ws)
  case None
  then show ?thesis by simp
next
  case (Some wn)
  have r: "red_underline X
      ''\<newline>error - missing the following package dependencies. please install and add to package.json.\<newline>'' \<noteq> []"
    using assms(1) by (simp add: keeps_text_def)
  have y1: "yellow_underline X
      ''\<newline>warning - add the following packages to package.json\<newline>'' \<noteq> []"
    using assms(2) by (simp add: keeps_text_def)
  have y2: "yellow_underline X
      ''\<newline>warning - following packages are not installed. please install them.\<newline>'' \<noteq> []"
    using assms(2) by (simp add: keeps_text_def)
  show ?thesis
    unfolding Some getWarningOutput_def Let_def using r y1 y2 by auto
qed

theorem warning_output_empty_iff_witness:
  "keeps_text (red_underline plain) \<and> keeps_text (yellow_underline plain) \<and>
   getWarningOutput plain None = [] \<and>
   getWarningOutput plain (Some no_warnings) = [] \<and>
   getWarningOutput plain (Some lodash_warnings) \<noteq> []"
proof -
  have r: "keeps_text (red_underline plain)" by (simp add: keeps_text_def plain_def)
  have y: "keeps_text (yellow_underline plain)" by (simp add: keeps_text_def plain_def)
  have a: "getWarningOutput plain None = []"
    using warning_output_empty_iff [OF r y, of None] by simp
  have b: "getWarningOutput plain (Some no_warnings) = []"
    using warning_output_empty_iff [OF r y, of "Some no_warnings"]
    by (simp add: no_warnings_def)
  have c: "getWarningOutput plain (Some lodash_warnings) \<noteq> []"
    using warning_output_empty_iff [OF r y, of "Some lodash_warnings"]
    by (simp add: lodash_warnings_def)
  from r y a b c show ?thesis by simp
qed

section \<open>Conflicts are reported together\<close>

text \<open>
  C1. In the gate modelled from the spec: if an identifier of the batch has a workspace
  entry whose recorded hash differs from the hash on disk and the override flag is not
  set, the gate fails with the aggregated conflict error, and the text of the error
  contains that identifier. This holds for every conflicted identifier of the batch.
\<close>

theorem conflicts_all_reported:
  assumes "i \<in> set closure"
    and "find (\<lambda>e. we_identifier e = i) entries = Some e"
    and "disk (we_path e) \<noteq> Some (we_hash e)"
    and "\<not> ov"
  shows "\<exists>msg. conflict_gate ov closure entries disk = Inl (ConflictError msg) \<and>
               sublist (toString i) msg"
proof -
  let ?cs = "detect_conflicts closure entries disk"
  let ?c = "\<lparr> cr_identifier = i, cr_reason = LocalModification \<rparr>"
  have mem: "?c \<in> set ?cs"
  proof -
    have "conflict_of entries disk i = [?c]"
      using assms(2,3) by (rule conflict_of_member)
    with assms(1) show ?thesis by (force simp add: detect_conflicts_def)
  qed
  then have ne: "?cs \<noteq> []" by auto
  have "toString i \<in> set (map (\<lambda>c. toString (cr_identifier c)) ?cs)"
    using mem by force
  then have "sublist (toString i) (join '', '' (map (\<lambda>c. toString (cr_identifier c)) ?cs))"
    by (rule sublist_join)
  then have "sublist (toString i) (conflict_message ?cs)"
    unfolding conflict_message_def by (rule sublist_after)
  moreover have "conflict_gate ov closure entries disk = Inl (ConflictError (conflict_message ?cs))"
    using ne assms(4) by (simp add: conflict_gate_def Let_def)
  ultimately show ?thesis by blast
qed

theorem conflicts_all_reported_witness:
  "foo_id \<in> set [foo_id, foo2_id] \<and> foo2_id \<in> set [foo_id, foo2_id] \<and>
   find (\<lambda>e. we_identifier e = foo_id) test_entries = Some (test_entries ! 0) \<and>
   find (\<lambda>e. we_identifier e = foo2_id) test_entries = Some (test_entries ! 1) \<and>
   test_disk (we_path (test_entries ! 0)) \<noteq> Some (we_hash (test_entries ! 0)) \<and>
   test_disk (we_path (test_entries ! 1)) \<noteq> Some (we_hash (test_entries ! 1)) \<and>
   (\<exists>msg. conflict_gate False [foo_id, foo2_id] test_entries test_disk
             = Inl (ConflictError msg) \<and> sublist (toString foo_id) msg) \<and>
   (\<exists>msg. conflict_gate False [foo_id, foo2_id] test_entries test_disk
             = Inl (ConflictError msg) \<and> sublist (toString foo2_id) msg)"
proof -
  have m1: "foo_id \<in> set [foo_id, foo2_id]" and m2: "foo2_id \<in> set [foo_id, foo2_id]"
    by simp_all
  have f1: "find (\<lambda>e. we_identifier e = foo_id) test_entries = Some (test_entries ! 0)"
    by (simp add: test_entries_def)
  have f2: "find (\<lambda>e. we_identifier e = foo2_id) test_entries = Some (test_entries ! 1)"
    by (simp add: test_entries_def foo_id_def foo2_id_def)
  have h1: "test_disk (we_path (test_entries ! 0)) \<noteq> Some (we_hash (test_entries ! 0))"
    by (simp add: test_entries_def test_disk_def)
  have h2: "test_disk (we_path (test_entries ! 1)) \<noteq> Some (we_hash (test_entries ! 1))"
    by (simp add: test_entries_def test_disk_def)
  have n: "\<not> False" by simp
  have c1: "\<exists>msg. conflict_gate False [foo_id, foo2_id] test_entries test_disk
                   = Inl (ConflictError msg) \<and> sublist (toString foo_id) msg"
    using m1 f1 h1 n
    by (rule conflicts_all_reported [where i = foo_id and e = "test_entries ! 0"])
  have c2: "\<exists>msg. conflict_gate False [foo_id, foo2_id] test_entries test_disk
                   = Inl (ConflictError msg) \<and> sublist (toString foo2_id) msg"
    using m2 f2 h2 n
    by (rule conflicts_all_reported [where i = foo2_id and e = "test_entries ! 1"])
  from m1 m2 f1 f2 h1 h2 c1 c2 show ?thesis by (intro conjI)
qed

end
